theory Spec2Isabelle
  imports Main "HOL-Library.Word"
begin

unbundle bit_operations_syntax

section \<open>Values of the host language\<close>

text \<open>
  The asymmetric (ECIES) engine of chain-js, \<^verbatim>\<open>crypto/asymmetric.ts\<close>, works on Node
  buffers, on strings and on loosely typed option objects. A buffer is a list of bytes.
  A text that the engine transcodes to or from UTF-8 (the plaintext, \<^verbatim>\<open>s1\<close>, \<^verbatim>\<open>s2\<close>, a
  serialized envelope) is a \<open>jsstring\<close>, the list of its UTF-16 code units, lone
  surrogates included. A text that the engine only compares or decodes as hexadecimal
  (a key, a field of the envelope, a scheme name, an ephemeral key in text form) is a
  \<open>string\<close> of characters below 256. A value that may be \<^verbatim>\<open>undefined\<close> or \<^verbatim>\<open>null\<close> is a
  \<open>js\<close> value; a property that an object may lack altogether is an \<open>option\<close> of one
  (\<open>None\<close>: the property is absent, \<open>Some Undefined\<close>: it is present and holds
  \<^verbatim>\<open>undefined\<close>).
\<close>

type_synonym byte = "8 word"
type_synonym buffer = "byte list"
type_synonym jsstring = "16 word list"

datatype 'a js = Undefined | Null | Val 'a

text \<open>
  The errors the engine raises. \<open>TypeError\<close> is the language's own error (reading a
  property of \<^verbatim>\<open>undefined\<close>); the next three are the engine's \<^verbatim>\<open>throwNewError\<close> calls
  with the messages \<^verbatim>\<open>Not supported CurveType\<close>, \<^verbatim>\<open>scheme does not match\<close> and
  \<^verbatim>\<open>mac does not match\<close>, under the names the specification gives them;
  \<open>InvalidEnvelope\<close> is a serialized value that does not parse; \<open>PrimitiveFailure\<close> is
  an exception thrown by a library primitive.
\<close>

datatype error =
    TypeError string
  | UnsupportedCurve
  | SchemeMismatch
  | AuthenticationFailed
  | InvalidEnvelope
  | PrimitiveFailure string

text \<open>Sequencing of computations that may throw: the first error ends the call.\<close>

definition andThen :: "error + 'a \<Rightarrow> ('a \<Rightarrow> error + 'b) \<Rightarrow> error + 'b" where
  "andThen r f = (case r of Inl e \<Rightarrow> Inl e | Inr x \<Rightarrow> f x)"

subsection \<open>Text and hexadecimal encodings of buffers\<close>

text \<open>
  \<^verbatim>\<open>Buffer.from(s, 'utf8')\<close>, which is also what a cipher does to a string it is given:
  the UTF-8 encoding of a UTF-16 string. A surrogate pair is one code point of four
  bytes; a surrogate without its partner is encoded as the replacement character
  U+FFFD, the bytes \<open>EF BF BD\<close>.
\<close>

definition encodeUnit :: "16 word \<Rightarrow> buffer" where
  "encodeUnit u =
     (let c = unat u in
      if c < 128 then [of_nat c]
      else if c < 2048 then [of_nat (192 + c div 64), of_nat (128 + c mod 64)]
      else if 55296 \<le> c \<and> c < 57344 then [239, 191, 189]
      else [of_nat (224 + c div 4096), of_nat (128 + c div 64 mod 64), of_nat (128 + c mod 64)])"

definition isHighSurrogate :: "16 word \<Rightarrow> bool" where
  "isHighSurrogate u = (55296 \<le> unat u \<and> unat u < 56320)"

definition isLowSurrogate :: "16 word \<Rightarrow> bool" where
  "isLowSurrogate u = (56320 \<le> unat u \<and> unat u < 57344)"

definition encodePair :: "16 word \<Rightarrow> 16 word \<Rightarrow> buffer" where
  "encodePair u v =
     (let c = 65536 + (unat u - 55296) * 1024 + (unat v - 56320) in
      [of_nat (240 + c div 262144), of_nat (128 + c div 4096 mod 64),
       of_nat (128 + c div 64 mod 64), of_nat (128 + c mod 64)])"

fun utf8Encode :: "jsstring \<Rightarrow> buffer" where
  "utf8Encode (u # v # rest) =
     (if isHighSurrogate u \<and> isLowSurrogate v then encodePair u v @ utf8Encode rest
      else encodeUnit u @ utf8Encode (v # rest))"
| "utf8Encode [u] = encodeUnit u"
| "utf8Encode [] = []"

text \<open>A \<open>string\<close> as the UTF-16 string it stands for, and its UTF-8 encoding.\<close>

definition toJs :: "string \<Rightarrow> jsstring" where
  "toJs s = map (\<lambda>c. of_nat (of_char c)) s"

definition utf8ToBuffer :: "string \<Rightarrow> buffer" where
  "utf8ToBuffer s = utf8Encode (toJs s)"

definition hexDigit :: "nat \<Rightarrow> char" where
  "hexDigit n = ''0123456789abcdef'' ! (n mod 16)"

text \<open>The value of a hexadecimal digit, of either case; \<open>None\<close> for any other character.\<close>

definition unhex :: "char \<Rightarrow> nat option" where
  "unhex c =
     (let n = (of_char c :: nat) in
      if 48 \<le> n \<and> n \<le> 57 then Some (n - 48)
      else if 97 \<le> n \<and> n \<le> 102 then Some (n - 87)
      else if 65 \<le> n \<and> n \<le> 70 then Some (n - 55)
      else None)"

text \<open>\<^verbatim>\<open>buffer.toString('hex')\<close>: two lower-case digits a byte.\<close>

definition toHex :: "buffer \<Rightarrow> string" where
  "toHex b = concat (map (\<lambda>w. [hexDigit (unat w div 16), hexDigit (unat w mod 16)]) b)"

text \<open>
  \<^verbatim>\<open>Buffer.from(s, 'hex')\<close>: Node decodes pairs of digits and stops, without an error, at
  the first pair that is not hexadecimal; a trailing single character is dropped.
\<close>

fun fromHex :: "string \<Rightarrow> buffer" where
  "fromHex (a # b # rest) =
     (case unhex a of
        None \<Rightarrow> []
      | Some x \<Rightarrow> (case unhex b of
          None \<Rightarrow> []
        | Some y \<Rightarrow> of_nat (16 * x + y) # fromHex rest))"
| "fromHex [a] = []"
| "fromHex [] = []"

definition emptyBuffer :: buffer where
  "emptyBuffer = []"

section \<open>Constant-time comparison\<close>

text \<open>
  \<^verbatim>\<open>equalConstTime\<close>: the bitwise operators work on 32-bit integers, so the accumulator
  \<^verbatim>\<open>result\<close> is a 32-bit word and each byte is widened before the exclusive or. The loop
  is the recursion on its counter \<open>i\<close>; it returns the state in which the loop ends, the
  counter and the accumulator.
\<close>

function equalConstTime_loop :: "buffer \<Rightarrow> buffer \<Rightarrow> nat \<Rightarrow> 32 word \<Rightarrow> nat \<times> 32 word" where
  "equalConstTime_loop b1 b2 i result =
     (if i < length b1
      then equalConstTime_loop b1 b2 (i + 1) (result OR (ucast (b1 ! i) XOR ucast (b2 ! i)))
      else (i, result))"
  by pat_completeness auto
termination
  by (relation "measure (\<lambda>(b1, b2, i, result). length b1 - i)") auto

definition equalConstTime :: "buffer \<Rightarrow> buffer \<Rightarrow> bool" where
  "equalConstTime b1 b2 =
     (if length b1 \<noteq> length b2 then False
      else snd (equalConstTime_loop b1 b2 0 0) = 0)"

text \<open>
  The comparison as the specification words it: an equal-length check, then the running
  bitwise or of the exclusive ors of all byte pairs, reduced to one boolean.
\<close>

definition macVerify_spec :: "buffer \<Rightarrow> buffer \<Rightarrow> bool" where
  "macVerify_spec tag recomputed =
     (length tag = length recomputed \<and>
      fold (\<lambda>(x, y) acc. acc OR (ucast x XOR ucast y)) (zip tag recomputed) (0 :: 32 word) = 0)"


section \<open>Options, envelopes and the primitives the engine calls\<close>

text \<open>
  Modelled from the spec: the enumerations of \<^verbatim>\<open>asymmetricModels.ts\<close> are not part of
  the sources at hand. The curve tags are the two the engine dispatches on and any other
  tag; the cipher names are the three the engine mentions and any other name.
\<close>

datatype EciesCurveType = Secp256k1 | Ed25519 | OtherCurve string

datatype SymmetricCypherType = Aes128Ecb | Aes256Ctr | Sha256 | OtherCypher string

datatype ECDHKeyFormat = Compressed | Uncompressed | Hybrid

text \<open>
  \<^verbatim>\<open>EciesOptions\<close> as the caller passes it: every property may be absent (\<open>None\<close>) or
  hold any value, \<^verbatim>\<open>undefined\<close> included. The fields carry the suffix \<open>In\<close> that the
  engine gives to the raw \<^verbatim>\<open>iv\<close>, \<^verbatim>\<open>s1\<close> and \<^verbatim>\<open>s2\<close>.
\<close>

record EciesOptions =
  hashCypherTypeIn :: "SymmetricCypherType js option"
  macCipherTypeIn :: "SymmetricCypherType js option"
  curveTypeIn :: "EciesCurveType js option"
  symmetricCypherTypeIn :: "SymmetricCypherType js option"
  keyFormatIn :: "ECDHKeyFormat js option"
  ivIn :: "string js option"
  s1In :: "jsstring js option"
  s2In :: "jsstring js option"
  schemeIn :: "string js option"

text \<open>\<^verbatim>\<open>EciesOptionsAsBuffers\<close>: the options after \<^verbatim>\<open>composeOptions\<close>.\<close>

record EciesOptionsAsBuffers =
  hashCypherType :: "SymmetricCypherType js"
  macCipherType :: "SymmetricCypherType js"
  curveType :: "EciesCurveType js"
  symmetricCypherType :: "SymmetricCypherType js"
  keyFormat :: "ECDHKeyFormat js"
  iv :: "buffer js"
  s1 :: buffer
  s2 :: buffer
  scheme :: "string js"

text \<open>\<^verbatim>\<open>AsymmetricEncryptedData\<close>, the envelope.\<close>

record AsymmetricEncryptedData =
  env_iv :: "string js"
  env_publicKey :: string
  env_ephemPublicKey :: string
  env_ciphertext :: string
  env_mac :: string
  env_scheme :: "string js"

text \<open>
  \<^verbatim>\<open>CustomAsymmetricScheme\<close>: an optional scheme name and two optional strategies. The key
  generator receives the shared secret (which the receiving side may leave
  \<^verbatim>\<open>undefined\<close>), \<open>s1\<close> and the ephemeral public key, and returns the cipher key and the
  MAC key; the MAC generator receives the MAC key, \<open>s2\<close> and the ciphertext.
\<close>

record CustomAsymmetricScheme =
  cas_scheme :: "string js"
  customMessageKeyGenerator :: "(buffer js \<Rightarrow> buffer \<Rightarrow> buffer \<Rightarrow> error + (buffer \<times> buffer)) option"
  customMacGenerator :: "(buffer \<Rightarrow> buffer \<Rightarrow> buffer \<Rightarrow> error + buffer) option"

text \<open>The value \<^verbatim>\<open>decryptWithPrivateKey\<close> accepts: an envelope or its serialized text.\<close>

datatype encrypted_value = EncObject AsymmetricEncryptedData | EncString jsstring

text \<open>
  Modelled from the spec: \<^verbatim>\<open>diffieHellman.ts\<close> is not part of the sources at hand. The
  ephemeral public key, as the sender's key agreement hands it back, is a buffer (Node's
  ECDH, on secp256k1) or a text (the base64 text of an ed25519 key); which of the two a
  key agreement returns is left to the primitives. \<^verbatim>\<open>encryptWithPublicKey\<close> reads it
  twice: as \<^verbatim>\<open>Buffer.from(ephemPublicKey, 'hex')\<close> for the key derivation, which copies a
  buffer and decodes a text as hexadecimal, and as \<^verbatim>\<open>Buffer.from(ephemPublicKey)\<close> for the
  envelope, which copies a buffer and encodes a text in UTF-8.
\<close>

datatype key_value = KeyBuffer buffer | KeyText string

definition Buffer_from_hex :: "key_value \<Rightarrow> buffer" where
  "Buffer_from_hex k = (case k of KeyBuffer b \<Rightarrow> b | KeyText t \<Rightarrow> fromHex t)"

definition Buffer_from :: "key_value \<Rightarrow> buffer" where
  "Buffer_from k = (case k of KeyBuffer b \<Rightarrow> b | KeyText t \<Rightarrow> utf8ToBuffer t)"

text \<open>
  What the engine imports and calls, as parameters of the model: the key agreement of
  \<^verbatim>\<open>diffieHellman.ts\<close> (the sender's functions take the entropy of the ephemeral key pair
  as their first argument and return the ephemeral public key and the shared secret), the
  base64 decoder, Node's hashes, HMACs and ciphers (a cipher object with its \<^verbatim>\<open>update\<close> and
  \<^verbatim>\<open>final\<close> is one function from the input to the output), the UTF-8 decoder behind
  \<^verbatim>\<open>buffer.toString()\<close>, which does not throw, the ECDSA of the secp256k1 binding, the
  SHA-256 and text helpers used for signing, and JSON for the envelope. All but the
  decoder and the signing helpers may throw.
\<close>

record primitives =
  generateEphemPublicKeyAndSharedSecretType1 ::
    "buffer \<Rightarrow> buffer \<Rightarrow> EciesCurveType \<Rightarrow> ECDHKeyFormat js \<Rightarrow> error + (key_value \<times> buffer)"
  generateSharedSecretType1 :: "buffer \<Rightarrow> buffer \<Rightarrow> EciesCurveType \<Rightarrow> error + buffer"
  generateEphemPublicKeyAndSharedSecretEd25519 :: "buffer \<Rightarrow> buffer \<Rightarrow> error + (key_value \<times> buffer)"
  generateSharedSecretEd25519 :: "buffer \<Rightarrow> buffer \<Rightarrow> error + buffer"
  decodeBase64 :: "jsstring \<Rightarrow> error + buffer"
  utf8Decode :: "buffer \<Rightarrow> jsstring"
  createHash :: "SymmetricCypherType js \<Rightarrow> buffer \<Rightarrow> error + buffer"
  createHmac :: "SymmetricCypherType js \<Rightarrow> buffer \<Rightarrow> buffer \<Rightarrow> error + buffer"
  createCipher :: "SymmetricCypherType js \<Rightarrow> buffer \<Rightarrow> buffer \<Rightarrow> error + buffer"
  createCipheriv :: "SymmetricCypherType js \<Rightarrow> buffer \<Rightarrow> buffer \<Rightarrow> buffer \<Rightarrow> error + buffer"
  createDecipher :: "SymmetricCypherType js \<Rightarrow> buffer \<Rightarrow> buffer \<Rightarrow> error + buffer"
  createDecipheriv :: "SymmetricCypherType js \<Rightarrow> buffer \<Rightarrow> buffer \<Rightarrow> buffer \<Rightarrow> error + buffer"
  ecdsaSign :: "buffer \<Rightarrow> buffer \<Rightarrow> error + buffer"
  ecdsaVerify :: "buffer \<Rightarrow> buffer \<Rightarrow> buffer \<Rightarrow> error + bool"
  createSha256Hash :: "string \<Rightarrow> string"
  utf8StringToHexString :: "string \<Rightarrow> string"
  jsonStringify :: "AsymmetricEncryptedData \<Rightarrow> jsstring"
  jsonParse :: "jsstring \<Rightarrow> AsymmetricEncryptedData option"

subsection \<open>Helpers\<close>

text \<open>
  Modelled from the spec: the helper \<^verbatim>\<open>isNullOrEmpty\<close> is not part of the sources at hand.
  It holds of \<^verbatim>\<open>undefined\<close>, of \<^verbatim>\<open>null\<close> and of an empty value (the specification parses
  only a non-empty IV and stores an IV in the envelope only when there is one).
\<close>

definition isNullOrEmpty :: "'a list js \<Rightarrow> bool" where
  "isNullOrEmpty v = (case v of Undefined \<Rightarrow> True | Null \<Rightarrow> True | Val x \<Rightarrow> x = [])"

text \<open>Reading a property that may be absent gives \<^verbatim>\<open>undefined\<close>.\<close>

definition getProp :: "'a js option \<Rightarrow> 'a js" where
  "getProp p = (case p of None \<Rightarrow> Undefined | Some v \<Rightarrow> v)"

text \<open>
  One property of \<^verbatim>\<open>{ ...DefaultEciesOptions, ...otherOptions }\<close>: the caller's property
  when it is present, whatever it holds, and else the default's.
\<close>

definition spread :: "'a js \<Rightarrow> 'a js option \<Rightarrow> 'a js" where
  "spread dflt p = (case p of None \<Rightarrow> dflt | Some v \<Rightarrow> v)"

text \<open>Truthiness of a string that may be missing, and the operator \<^verbatim>\<open>||\<close>.\<close>

definition truthy :: "string js \<Rightarrow> bool" where
  "truthy v = (case v of Undefined \<Rightarrow> False | Null \<Rightarrow> False | Val s \<Rightarrow> s \<noteq> [])"

definition orElse :: "string js \<Rightarrow> string js \<Rightarrow> string js" where
  "orElse a b = (if truthy a then a else b)"

text \<open>
  Modelled from the spec: \<^verbatim>\<open>ensureEncryptedValueIsObject\<close> of \<^verbatim>\<open>genericCryptoHelpers.ts\<close>
  is not part of the sources at hand. It accepts the envelope as an object or as its
  serialized text, and a text that does not parse is an invalid envelope.
\<close>

definition ensureEncryptedValueIsObject :: "primitives \<Rightarrow> encrypted_value \<Rightarrow> error + AsymmetricEncryptedData" where
  "ensureEncryptedValueIsObject P v =
     (case v of
        EncObject e \<Rightarrow> Inr e
      | EncString s \<Rightarrow> (case jsonParse P s of None \<Rightarrow> Inl InvalidEnvelope | Some e \<Rightarrow> Inr e))"


section \<open>The single-recipient engine\<close>

text \<open>\<^verbatim>\<open>DefaultEciesOptions\<close>; it has no \<^verbatim>\<open>iv\<close>, \<^verbatim>\<open>s1\<close>, \<^verbatim>\<open>s2\<close> or \<^verbatim>\<open>scheme\<close>.\<close>

definition noOptions :: EciesOptions where
  "noOptions = \<lparr> hashCypherTypeIn = None, macCipherTypeIn = None, curveTypeIn = None,
     symmetricCypherTypeIn = None, keyFormatIn = None, ivIn = None, s1In = None, s2In = None,
     schemeIn = None \<rparr>"

definition emptyBufferForIv :: "SymmetricCypherType js \<Rightarrow> buffer" where
  "emptyBufferForIv cypherType =
     (if cypherType = Val Aes256Ctr then replicate 16 0 else emptyBuffer)"

text \<open>
  \<^verbatim>\<open>composeOptions\<close>. The merged object takes each property from the caller when the
  caller's object has it and from the defaults otherwise; the test for an undefined
  \<^verbatim>\<open>symmetricCypherType\<close> is made on the merged object. The variable \<^verbatim>\<open>iv\<close> is declared
  without a value, so it stays \<^verbatim>\<open>undefined\<close> when no branch of the chain assigns it.
\<close>

definition composeOptions :: "EciesOptions option \<Rightarrow> EciesOptionsAsBuffers" where
  "composeOptions optionsIn =
     (let opts = (case optionsIn of None \<Rightarrow> noOptions | Some x \<Rightarrow> x);
          s1In' = getProp (s1In opts);
          s2In' = getProp (s2In opts);
          ivIn0 = getProp (ivIn opts);
          merged = spread (Val Aes128Ecb) (symmetricCypherTypeIn opts);
          newSymmetricCypherType = (if merged = Undefined then Val Aes128Ecb else merged);
          ivIn' = (if merged = Undefined then Undefined else ivIn0);
          iv' = (if \<not> isNullOrEmpty ivIn'
                 then (case ivIn' of Val s \<Rightarrow> Val (fromHex s) | _ \<Rightarrow> Undefined)
                 else if ivIn' = Undefined then Val (emptyBufferForIv newSymmetricCypherType)
                 else if ivIn' = Null then Null
                 else Undefined);
          s1' = (case s1In' of Val s \<Rightarrow> if \<not> isNullOrEmpty s1In' then utf8Encode s else emptyBuffer
                 | _ \<Rightarrow> emptyBuffer);
          s2' = (case s2In' of Val s \<Rightarrow> if \<not> isNullOrEmpty s2In' then utf8Encode s else emptyBuffer
                 | _ \<Rightarrow> emptyBuffer)
      in \<lparr> hashCypherType = spread (Val Sha256) (hashCypherTypeIn opts),
           macCipherType = spread (Val Sha256) (macCipherTypeIn opts),
           curveType = spread (Val Secp256k1) (curveTypeIn opts),
           symmetricCypherType = newSymmetricCypherType,
           keyFormat = spread (Val Uncompressed) (keyFormatIn opts),
           iv = iv', s1 = s1', s2 = s2',
           scheme = getProp (schemeIn opts) \<rparr>)"

definition getDefaultScheme :: "EciesCurveType js \<Rightarrow> string js" where
  "getDefaultScheme curveType' =
     (if curveType' = Val Ed25519 then Val ''asym.chainjs.ed25519''
      else if curveType' = Val Secp256k1 then Val ''asym.chainjs.secp256k1''
      else Null)"

text \<open>
  The sender's key agreement: two tests in a row, each of which may assign \<^verbatim>\<open>result\<close>, and
  an error when neither did.
\<close>

definition generateSharedSecretAndEphemPublicKey ::
  "primitives \<Rightarrow> buffer \<Rightarrow> buffer \<Rightarrow> EciesCurveType js \<Rightarrow> ECDHKeyFormat js
     \<Rightarrow> error + (key_value \<times> buffer)" where
  "generateSharedSecretAndEphemPublicKey P entropy publicKey curveType' keyFormat' =
     andThen (if curveType' = Val Secp256k1
              then map_sum id Some
                     (generateEphemPublicKeyAndSharedSecretType1 P entropy publicKey Secp256k1 keyFormat')
              else Inr None) (\<lambda>result1.
     andThen (if curveType' = Val Ed25519
              then map_sum id Some (generateEphemPublicKeyAndSharedSecretEd25519 P entropy publicKey)
              else Inr result1) (\<lambda>result.
     case result of None \<Rightarrow> Inl UnsupportedCurve | Some r \<Rightarrow> Inr r))"

text \<open>
  The receiver's key agreement: the same two tests, and the two variables returned as
  they are, \<^verbatim>\<open>undefined\<close> when neither test held.
\<close>

definition generateSharedSecretUsingPrivateKey ::
  "primitives \<Rightarrow> buffer \<Rightarrow> string \<Rightarrow> EciesCurveType js \<Rightarrow> error + (buffer js \<times> buffer js)" where
  "generateSharedSecretUsingPrivateKey P privateKey ephemPublicKey curveType' =
     andThen (if curveType' = Val Secp256k1
              then andThen (generateSharedSecretType1 P (fromHex ephemPublicKey) privateKey Secp256k1)
                     (\<lambda>sharedSecret. Inr (Val (fromHex ephemPublicKey), Val sharedSecret))
              else Inr (Undefined, Undefined)) (\<lambda>state1.
     if curveType' = Val Ed25519
     then andThen (decodeBase64 P (utf8Decode P (fromHex ephemPublicKey))) (\<lambda>decodedPublicKey.
          andThen (generateSharedSecretEd25519 P decodedPublicKey privateKey) (\<lambda>sharedSecret.
          Inr (Val (fromHex ephemPublicKey), Val sharedSecret)))
     else Inr state1)"

text \<open>\<^verbatim>\<open>symmetricEncrypt\<close> and \<^verbatim>\<open>symmetricDecrypt\<close>.\<close>

definition symmetricEncrypt ::
  "primitives \<Rightarrow> SymmetricCypherType js \<Rightarrow> buffer js \<Rightarrow> buffer \<Rightarrow> jsstring \<Rightarrow> error + buffer" where
  "symmetricEncrypt P cypherName iv' key plaintext =
     (if iv' = Undefined then createCipher P cypherName key (utf8Encode plaintext)
      else createCipheriv P cypherName key
             (case iv' of Val b \<Rightarrow> b | _ \<Rightarrow> emptyBuffer) (utf8Encode plaintext))"

definition symmetricDecrypt ::
  "primitives \<Rightarrow> SymmetricCypherType js \<Rightarrow> buffer js \<Rightarrow> buffer \<Rightarrow> buffer \<Rightarrow> error + buffer" where
  "symmetricDecrypt P cypherName iv' key ciphertext =
     (if iv' = Undefined then createDecipher P cypherName key ciphertext
      else createDecipheriv P cypherName key
             (case iv' of Val b \<Rightarrow> b | _ \<Rightarrow> emptyBuffer) ciphertext)"

definition generateMessageHash :: "primitives \<Rightarrow> SymmetricCypherType js \<Rightarrow> buffer \<Rightarrow> error + buffer" where
  "generateMessageHash P cypherName message = createHash P cypherName message"

definition generateMessageMac ::
  "primitives \<Rightarrow> SymmetricCypherType js \<Rightarrow> buffer \<Rightarrow> buffer \<Rightarrow> error + buffer" where
  "generateMessageMac P cypherName key message = createHmac P cypherName key message"

text \<open>
  The key derivation, written out twice in the engine (in \<^verbatim>\<open>encryptWithPublicKey\<close> and in
  \<^verbatim>\<open>decryptWithPrivateKey\<close>): the custom generator when there is one, else the hash of
  \<open>sharedSecret || s1 || ephemBuffer\<close> cut in two halves. Reading the length of an
  undefined shared secret is a \<open>TypeError\<close>.
\<close>

definition deriveKeys ::
  "primitives \<Rightarrow> CustomAsymmetricScheme \<Rightarrow> EciesOptionsAsBuffers \<Rightarrow> buffer js \<Rightarrow> buffer
     \<Rightarrow> error + (buffer \<times> buffer)" where
  "deriveKeys P cas useOptions sharedSecret ephemBuffer =
     (case customMessageKeyGenerator cas of
        Some generator \<Rightarrow> generator sharedSecret (s1 useOptions) ephemBuffer
      | None \<Rightarrow>
          (case sharedSecret of
             Val secret \<Rightarrow>
               andThen (generateMessageHash P (hashCypherType useOptions)
                          (secret @ s1 useOptions @ ephemBuffer)) (\<lambda>hash.
               Inr (take (length hash div 2) hash, drop (length hash div 2) hash))
           | _ \<Rightarrow> Inl (TypeError ''sharedSecret.length'')))"

text \<open>The tag, also written out twice: the custom generator, else the HMAC of \<open>c || s2\<close>.\<close>

definition computeMac ::
  "primitives \<Rightarrow> CustomAsymmetricScheme \<Rightarrow> EciesOptionsAsBuffers \<Rightarrow> buffer \<Rightarrow> buffer \<Rightarrow> error + buffer" where
  "computeMac P cas useOptions macKey cipherText =
     (case customMacGenerator cas of
        Some generator \<Rightarrow> generator macKey (s2 useOptions) cipherText
      | None \<Rightarrow> generateMessageMac P (macCipherType useOptions) macKey (cipherText @ s2 useOptions))"

text \<open>The scheme name: \<^verbatim>\<open>customScheme || useOptions.scheme || getDefaultScheme(curveType)\<close>.\<close>

definition resolveScheme :: "CustomAsymmetricScheme \<Rightarrow> EciesOptionsAsBuffers \<Rightarrow> string js" where
  "resolveScheme cas useOptions =
     orElse (orElse (cas_scheme cas) (scheme useOptions)) (getDefaultScheme (curveType useOptions))"

text \<open>
  \<^verbatim>\<open>encryptWithPublicKey\<close>. Its first statement destructures \<^verbatim>\<open>customAsymScheme\<close>, which
  throws when the argument is missing. The entropy of the ephemeral key pair is an
  argument. The ephemeral public key goes into the key derivation as
  \<^verbatim>\<open>Buffer.from(ephemPublicKey, 'hex')\<close> and into the envelope as the hexadecimal text of
  \<^verbatim>\<open>Buffer.from(ephemPublicKey)\<close>.
\<close>

definition encryptWithPublicKey ::
  "primitives \<Rightarrow> buffer \<Rightarrow> string \<Rightarrow> jsstring \<Rightarrow> EciesOptions option \<Rightarrow> CustomAsymmetricScheme option
     \<Rightarrow> error + AsymmetricEncryptedData" where
  "encryptWithPublicKey P entropy publicKey plainText options customAsymScheme =
     (case customAsymScheme of
        None \<Rightarrow> Inl (TypeError ''customAsymScheme'')
      | Some cas \<Rightarrow>
          (let useOptions = composeOptions options;
               publicKeyBuffer = fromHex publicKey
           in andThen (generateSharedSecretAndEphemPublicKey P entropy publicKeyBuffer
                         (curveType useOptions) (keyFormat useOptions)) (\<lambda>(ephemPublicKey, sharedSecret).
              let ephemBuffer = Buffer_from_hex ephemPublicKey
              in andThen (deriveKeys P cas useOptions (Val sharedSecret) ephemBuffer) (\<lambda>(cipherKey, macKey).
                 andThen (symmetricEncrypt P (symmetricCypherType useOptions) (iv useOptions)
                            cipherKey plainText) (\<lambda>cipherText.
                 andThen (computeMac P cas useOptions macKey cipherText) (\<lambda>mac.
                 let scheme' = resolveScheme cas useOptions
                 in Inr \<lparr> env_iv = (case iv useOptions of
                                      Val b \<Rightarrow> if \<not> isNullOrEmpty (iv useOptions) then Val (toHex b) else Null
                                    | _ \<Rightarrow> Null),
                          env_publicKey = publicKey,
                          env_ephemPublicKey = toHex (Buffer_from ephemPublicKey),
                          env_ciphertext = toHex cipherText,
                          env_mac = toHex mac,
                          env_scheme = (if truthy scheme' then scheme' else Undefined) \<rparr>))))))"

text \<open>
  \<^verbatim>\<open>decryptWithPrivateKey\<close>, in the order of its statements: the destructuring, the
  options, the envelope, the buffers, the key agreement, the scheme test, the key
  derivation, the tag and its comparison, and the decryption with the IV of the envelope.
\<close>

definition decryptWithPrivateKey ::
  "primitives \<Rightarrow> encrypted_value \<Rightarrow> string \<Rightarrow> EciesOptions option \<Rightarrow> CustomAsymmetricScheme option
     \<Rightarrow> error + jsstring" where
  "decryptWithPrivateKey P encrypted privateKey options customAsymScheme =
     (case customAsymScheme of
        None \<Rightarrow> Inl (TypeError ''customAsymScheme'')
      | Some cas \<Rightarrow>
          (let useOptions = composeOptions options
           in andThen (ensureEncryptedValueIsObject P encrypted) (\<lambda>encryptedObject.
              let cipherText = fromHex (env_ciphertext encryptedObject);
                  iv' = (case env_iv encryptedObject of
                           Val s \<Rightarrow> if \<not> isNullOrEmpty (env_iv encryptedObject) then fromHex s else emptyBuffer
                         | _ \<Rightarrow> emptyBuffer);
                  mac = fromHex (env_mac encryptedObject);
                  privateKeyBuffer = fromHex privateKey
              in andThen (generateSharedSecretUsingPrivateKey P privateKeyBuffer
                            (env_ephemPublicKey encryptedObject) (curveType useOptions))
                   (\<lambda>(ephemPublicKeyBuffer, sharedSecret).
                 let ephemBuffer = fromHex (env_ephemPublicKey encryptedObject);
                     scheme' = resolveScheme cas useOptions
                 in if truthy (env_scheme encryptedObject) \<and> scheme' \<noteq> env_scheme encryptedObject
                    then Inl SchemeMismatch
                    else andThen (deriveKeys P cas useOptions sharedSecret ephemBuffer) (\<lambda>(cipherKey, macKey).
                         andThen (computeMac P cas useOptions macKey cipherText) (\<lambda>compareMac.
                         if \<not> equalConstTime mac compareMac
                         then Inl AuthenticationFailed
                         else andThen (symmetricDecrypt P (symmetricCypherType useOptions) (Val iv')
                                         cipherKey cipherText) (\<lambda>buffer.
                              Inr (utf8Decode P buffer))))))))"

section \<open>Signing\<close>

text \<open>
  Modelled from the spec: the helper \<^verbatim>\<open>byteArrayToHexString\<close> is not part of the sources
  at hand; a signature is the hexadecimal text of its bytes.
\<close>

definition byteArrayToHexString :: "buffer \<Rightarrow> string" where
  "byteArrayToHexString b = toHex b"

text \<open>\<^verbatim>\<open>sign\<close> (the value its promise resolves to) and \<^verbatim>\<open>verifySignedWithPublicKey\<close>.\<close>

definition sign :: "primitives \<Rightarrow> string \<Rightarrow> string \<Rightarrow> error + string" where
  "sign P value privateKey =
     (let valueBuffer = fromHex (createSha256Hash P (utf8StringToHexString P value));
          keyBuffer = fromHex privateKey
      in andThen (ecdsaSign P valueBuffer keyBuffer) (\<lambda>signature.
         Inr (byteArrayToHexString signature)))"

definition verifySignedWithPublicKey :: "primitives \<Rightarrow> string \<Rightarrow> string \<Rightarrow> string \<Rightarrow> error + bool" where
  "verifySignedWithPublicKey P value publicKey signature =
     (let valueBuffer = fromHex (createSha256Hash P (utf8StringToHexString P value));
          keyBuffer = fromHex publicKey;
          sigBuffer = fromHex signature
      in ecdsaVerify P sigBuffer valueBuffer keyBuffer)"


section \<open>The multi-recipient engine\<close>





section \<open>What is assumed of the primitives\<close>






text \<open>
  A public and a private key match for signing when every signature made with the
  private key verifies under the public key.
\<close>

definition signingKeyPair :: "primitives \<Rightarrow> string \<Rightarrow> string \<Rightarrow> bool" where
  "signingKeyPair P publicKey privateKey \<longleftrightarrow>
     (\<forall>digest signature. ecdsaSign P digest (fromHex privateKey) = Inr signature
        \<longrightarrow> ecdsaVerify P signature digest (fromHex publicKey) = Inr True)"

section \<open>A small instance of the primitives\<close>

text \<open>
  An executable instance on which the engine can be run. A public key is its private key
  reversed; the shared secret is the private key followed by the ephemeral public key,
  and an empty key is rejected as Node's ECDH rejects an invalid one. On secp256k1 the
  ephemeral public key comes back as a buffer; on ed25519 it comes back as a text, as the
  specification has it (base64 there, one character a byte here). The hash is its input
  and the HMAC is the key and a checksum; the cipher prefixes the IV and the key, and
  decryption fails when they are not there; the deprecated cipher without an IV prefixes
  the key reversed. The UTF-8 decoder reads the bytes below 128 and the replacement
  character, and gives the replacement character for any other byte. A signature is the
  digest and the private key, padded to 64 bytes, and verification throws on a signature
  of another length, as the secp256k1 binding does. A serialized envelope is its fields
  in hexadecimal, each with its length in unary in front.
\<close>

definition toyAgreeSender :: "buffer \<Rightarrow> buffer \<Rightarrow> error + (buffer \<times> buffer)" where
  "toyAgreeSender entropy publicKey =
     (if publicKey = [] then Inl (PrimitiveFailure ''invalid public key'')
      else Inr (entropy, rev publicKey @ entropy))"

definition toyAgreeReceiver :: "buffer \<Rightarrow> buffer \<Rightarrow> error + buffer" where
  "toyAgreeReceiver ephemPublicKey privateKey =
     (if privateKey = [] then Inl (PrimitiveFailure ''invalid private key'')
      else Inr (privateKey @ ephemPublicKey))"

definition toyKeyText :: "buffer \<Rightarrow> string" where
  "toyKeyText b = map (\<lambda>w. char_of (unat w)) b"

fun toyUtf8Decode :: "buffer \<Rightarrow> jsstring" where
  "toyUtf8Decode (a # b # c # rest) =
     (if unat a < 128 then ucast a # toyUtf8Decode (b # c # rest)
      else if a = 239 \<and> b = 191 \<and> c = 189 then 65533 # toyUtf8Decode rest
      else 65533 # toyUtf8Decode (b # c # rest))"
| "toyUtf8Decode (a # rest) = (if unat a < 128 then ucast a else 65533) # toyUtf8Decode rest"
| "toyUtf8Decode [] = []"

definition toyDecipheriv :: "buffer \<Rightarrow> buffer \<Rightarrow> buffer \<Rightarrow> error + buffer" where
  "toyDecipheriv key iv' c =
     (if take (length iv' + length key) c = iv' @ key
      then Inr (drop (length iv' + length key) c)
      else Inl (PrimitiveFailure ''bad decrypt''))"

definition toySignature :: "buffer \<Rightarrow> buffer \<Rightarrow> buffer" where
  "toySignature digest privateKey = take 64 (digest @ privateKey @ replicate 64 0)"

definition toyVerify :: "buffer \<Rightarrow> buffer \<Rightarrow> buffer \<Rightarrow> error + bool" where
  "toyVerify signature digest publicKey =
     (if length signature \<noteq> 64 then Inl (PrimitiveFailure ''signature length'')
      else Inr (signature = toySignature digest (rev publicKey)))"

definition toyField :: "string \<Rightarrow> string" where
  "toyField s =
     (let h = toHex (map (\<lambda>c. of_nat (of_char c)) s)
      in replicate (length h) CHR ''1'' @ CHR ''0'' # h)"

definition toyOptField :: "string js \<Rightarrow> string" where
  "toyOptField v = (case v of Undefined \<Rightarrow> ''u'' | Null \<Rightarrow> ''n'' | Val s \<Rightarrow> CHR ''v'' # toyField s)"

definition toyReadField :: "string \<Rightarrow> string \<times> string" where
  "toyReadField t =
     (let n = length (takeWhile (\<lambda>c. c = CHR ''1'') t)
      in (map (\<lambda>w. char_of (unat w)) (fromHex (take n (drop (Suc n) t))), drop n (drop (Suc n) t)))"

definition toyReadOptField :: "string \<Rightarrow> (string js \<times> string) option" where
  "toyReadOptField t =
     (case t of
        [] \<Rightarrow> None
      | c # rest \<Rightarrow>
          if c = CHR ''u'' then Some (Undefined, rest)
          else if c = CHR ''n'' then Some (Null, rest)
          else if c = CHR ''v'' then Some (Val (fst (toyReadField rest)), snd (toyReadField rest))
          else None)"

definition toySerialize :: "AsymmetricEncryptedData \<Rightarrow> string" where
  "toySerialize e =
     toyOptField (env_iv e) @ toyOptField (env_scheme e) @ toyField (env_publicKey e)
       @ toyField (env_ephemPublicKey e) @ toyField (env_ciphertext e) @ toyField (env_mac e)"

definition toyStringify :: "AsymmetricEncryptedData \<Rightarrow> jsstring" where
  "toyStringify e = toJs (toySerialize e)"

definition toyParse :: "jsstring \<Rightarrow> AsymmetricEncryptedData option" where
  "toyParse text =
     (case toyReadOptField (map (\<lambda>u. char_of (unat u)) text) of
        None \<Rightarrow> None
      | Some (iv', t1) \<Rightarrow>
          (case toyReadOptField t1 of
             None \<Rightarrow> None
           | Some (scheme', t2) \<Rightarrow>
               (let (publicKey, t3) = toyReadField t2;
                    (ephemPublicKey, t4) = toyReadField t3;
                    (ciphertext, t5) = toyReadField t4;
                    (mac, t6) = toyReadField t5
                in if t6 = []
                   then Some \<lparr> env_iv = iv', env_publicKey = publicKey,
                               env_ephemPublicKey = ephemPublicKey, env_ciphertext = ciphertext,
                               env_mac = mac, env_scheme = scheme' \<rparr>
                   else None)))"

definition toyPrimitives :: primitives where
  "toyPrimitives =
     \<lparr> generateEphemPublicKeyAndSharedSecretType1 =
         (\<lambda>entropy publicKey curve format.
            map_sum id (\<lambda>(k, s). (KeyBuffer k, s)) (toyAgreeSender entropy publicKey)),
       generateSharedSecretType1 = (\<lambda>ephemPublicKey privateKey curve. toyAgreeReceiver ephemPublicKey privateKey),
       generateEphemPublicKeyAndSharedSecretEd25519 =
         (\<lambda>entropy publicKey.
            map_sum id (\<lambda>(k, s). (KeyText (toyKeyText k), s)) (toyAgreeSender entropy publicKey)),
       generateSharedSecretEd25519 = toyAgreeReceiver,
       decodeBase64 = (\<lambda>text. Inr (map ucast text)),
       utf8Decode = toyUtf8Decode,
       createHash = (\<lambda>name m. Inr m),
       createHmac = (\<lambda>name key m. Inr (key @ [foldr (+) m 0])),
       createCipher = (\<lambda>name key m. Inr (rev key @ m)),
       createCipheriv = (\<lambda>name key iv' m. Inr (iv' @ key @ m)),
       createDecipher = (\<lambda>name key c. toyDecipheriv (rev key) [] c),
       createDecipheriv = (\<lambda>name key iv' c. toyDecipheriv key iv' c),
       ecdsaSign = (\<lambda>digest privateKey. Inr (toySignature digest privateKey)),
       ecdsaVerify = toyVerify,
       createSha256Hash = (\<lambda>s. s),
       utf8StringToHexString = (\<lambda>s. toHex (utf8ToBuffer s)),
       jsonStringify = toyStringify,
       jsonParse = toyParse \<rparr>"

definition noCustomScheme :: CustomAsymmetricScheme where
  "noCustomScheme = \<lparr> cas_scheme = Undefined, customMessageKeyGenerator = None, customMacGenerator = None \<rparr>"

text \<open>
  Inputs on which the engine is run below. The envelope that the small instance makes of
  the text \<open>hi\<close> (the code units 104 and 105) for the public key \<open>0102\<close> and the entropy
  \<open>07\<close>, without its scheme, with one bit of its tag changed, with a foreign scheme and
  with an empty scheme; a custom scheme whose key generator ignores the shared secret;
  options that name AES-256-CTR and an IV, and the envelope made under them of the same
  text for the public key \<open>0a0b\<close> and the entropy \<open>09\<close>; options whose IV is the empty
  string, and the envelope made under them of the same text; options that name ed25519,
  and the envelope made under them of the same text for the entropy \<open>71\<close>; and the
  envelope made of the text that is the one code unit \<open>D800\<close>, a surrogate without its
  partner.
\<close>

definition unschemed :: AsymmetricEncryptedData where
  "unschemed = \<lparr> env_iv = Null, env_publicKey = ''0102'', env_ephemPublicKey = ''07'',
     env_ciphertext = ''02016869'', env_mac = ''0707d4'', env_scheme = Undefined \<rparr>"

definition tamperedMac :: AsymmetricEncryptedData where
  "tamperedMac = \<lparr> env_iv = Null, env_publicKey = ''0102'', env_ephemPublicKey = ''07'',
     env_ciphertext = ''02016869'', env_mac = ''0707d5'',
     env_scheme = Val ''asym.chainjs.secp256k1'' \<rparr>"

definition foreignScheme :: AsymmetricEncryptedData where
  "foreignScheme = \<lparr> env_iv = Null, env_publicKey = ''0102'', env_ephemPublicKey = ''07'',
     env_ciphertext = ''02016869'', env_mac = ''0707d4'', env_scheme = Val ''other'' \<rparr>"

definition emptyScheme :: AsymmetricEncryptedData where
  "emptyScheme = \<lparr> env_iv = Null, env_publicKey = ''0102'', env_ephemPublicKey = ''07'',
     env_ciphertext = ''02016869'', env_mac = ''0707d4'', env_scheme = Val [] \<rparr>"

definition fixedKeys :: CustomAsymmetricScheme where
  "fixedKeys = \<lparr> cas_scheme = Undefined,
     customMessageKeyGenerator = Some (\<lambda>sharedSecret s1' ephemBuffer. Inr ([2, 1], [7, 7])),
     customMacGenerator = None \<rparr>"

definition ctrOptions :: EciesOptions where
  "ctrOptions = noOptions \<lparr> symmetricCypherTypeIn := Some (Val Aes256Ctr), ivIn := Some (Val ''00ff'') \<rparr>"

definition ctrEnvelope :: AsymmetricEncryptedData where
  "ctrEnvelope = \<lparr> env_iv = Val ''00ff'', env_publicKey = ''0a0b'', env_ephemPublicKey = ''09'',
     env_ciphertext = ''00ff0b0a6869'', env_mac = ''0909e5'',
     env_scheme = Val ''asym.chainjs.secp256k1'' \<rparr>"






section \<open>Encodings\<close>

lemma unat_byte_less: "unat (w :: byte) < 256"
  using unsigned_less [of w, where 'a = nat] by simp

lemma unhex_hexDigit_upto: "list_all (\<lambda>n. unhex (hexDigit n) = Some n) [0..<16]"
  by code_simp

lemma unhex_hexDigit: "n < 16 \<Longrightarrow> unhex (hexDigit n) = Some n"
  using unhex_hexDigit_upto by (simp add: list_all_iff)

lemma fromHex_toHex: "fromHex (toHex b) = b"
proof (induction b)
  case Nil
  then show ?case by (simp add: toHex_def)
next
  case (Cons w b)
  have "unat w div 16 < 16"
    using unat_byte_less [of w] by simp
  then have hi: "unhex (hexDigit (unat w div 16)) = Some (unat w div 16)"
    by (rule unhex_hexDigit)
  have lo: "unhex (hexDigit (unat w mod 16)) = Some (unat w mod 16)"
    by (rule unhex_hexDigit) simp
  have "(of_nat (16 * (unat w div 16) + unat w mod 16) :: byte) = w"
    by simp
  with Cons hi lo show ?case
    by (simp add: toHex_def)
qed


section \<open>The comparison of tags\<close>

lemma equalConstTime_loop_counter: "fst (equalConstTime_loop b1 b2 i r) = max i (length b1)"
proof (induction b1 b2 i r rule: equalConstTime_loop.induct)
  case (1 b1 b2 i result)
  show ?case
  proof (cases "i < length b1")
    case True
    with 1 show ?thesis
      by (subst equalConstTime_loop.simps) (simp add: max_def)
  next
    case False
    then show ?thesis
      by (subst equalConstTime_loop.simps) (simp add: max_def)
  qed
qed

lemma equalConstTime_loop_fold:
  "i \<le> length b1 \<Longrightarrow> length b1 = length b2 \<Longrightarrow>
   snd (equalConstTime_loop b1 b2 i r) =
     fold (\<lambda>(x, y) acc. acc OR (ucast x XOR ucast y)) (zip (drop i b1) (drop i b2)) r"
proof (induction b1 b2 i r rule: equalConstTime_loop.induct)
  case (1 b1 b2 i result)
  show ?case
  proof (cases "i < length b1")
    case True
    then have d1: "drop i b1 = b1 ! i # drop (Suc i) b1"
      and d2: "drop i b2 = b2 ! i # drop (Suc i) b2"
      using 1(3) by (simp_all add: Cons_nth_drop_Suc)
    from True 1 show ?thesis
      by (subst equalConstTime_loop.simps) (simp add: d1 d2)
  next
    case False
    with 1 show ?thesis
      by (subst equalConstTime_loop.simps) simp
  qed
qed

lemma word32_xor_eq_0: "(a :: 32 word) XOR b = 0 \<longleftrightarrow> a = b"
  by (auto simp: bit_eq_iff bit_xor_iff)

lemma unat_ucast_byte: "unat (ucast (x :: byte) :: 32 word) = unat x"
proof -
  have "unat x < 2 ^ 32"
    using unat_byte_less [of x] by simp
  then have "take_bit 32 (unat x) = unat x"
    by (simp only: take_bit_nat_eq_self)
  then show ?thesis
    by (simp add: unsigned_ucast_eq)
qed

lemma byte_xor_eq_0: "(ucast (x :: byte) XOR ucast (y :: byte) :: 32 word) = 0 \<longleftrightarrow> x = y"
proof -
  have "(ucast x XOR ucast y :: 32 word) = 0 \<longleftrightarrow> (ucast x :: 32 word) = ucast y"
    by (rule word32_xor_eq_0)
  also have "\<dots> \<longleftrightarrow> unat (ucast x :: 32 word) = unat (ucast y :: 32 word)"
    by (simp add: word_unat_eq_iff)
  also have "\<dots> \<longleftrightarrow> unat x = unat y"
    by (simp add: unat_ucast_byte)
  also have "\<dots> \<longleftrightarrow> x = y"
    by (simp add: word_unat_eq_iff)
  finally show ?thesis .
qed

lemma running_or_eq_0:
  "fold (\<lambda>(x, y) acc. acc OR (ucast x XOR ucast y)) (zip xs ys) (r :: 32 word) = 0
     \<longleftrightarrow> r = 0 \<and> (\<forall>(x :: byte, y :: byte) \<in> set (zip xs ys). x = y)"
proof (induction xs arbitrary: ys r)
  case Nil
  then show ?case by simp
next
  case (Cons x xs)
  show ?case
  proof (cases ys)
    case Nil
    then show ?thesis by simp
  next
    case (Cons y ys')
    then show ?thesis
      using Cons.IH [of ys'] by (auto simp: or_eq_0_iff byte_xor_eq_0)
  qed
qed

lemma zip_all_equal: "length xs = length ys \<Longrightarrow> (\<forall>(x, y) \<in> set (zip xs ys). x = y) \<longleftrightarrow> xs = ys"
  by (induction xs ys rule: list_induct2) auto

lemma macVerify_spec_iff: "macVerify_spec b1 b2 \<longleftrightarrow> b1 = b2"
proof (cases "length b1 = length b2")
  case True
  then show ?thesis
    by (simp add: macVerify_spec_def running_or_eq_0 zip_all_equal)
next
  case False
  then show ?thesis
    by (auto simp: macVerify_spec_def)
qed

lemma equalConstTime_refines: "equalConstTime b1 b2 = macVerify_spec b1 b2"
proof (cases "length b1 = length b2")
  case True
  then show ?thesis
    using equalConstTime_loop_fold [of 0 b1 b2 0]
    by (simp add: equalConstTime_def macVerify_spec_def)
next
  case False
  then show ?thesis
    by (simp add: equalConstTime_def macVerify_spec_def)
qed

lemma equalConstTime_iff: "equalConstTime b1 b2 \<longleftrightarrow> b1 = b2"
  by (simp only: equalConstTime_refines macVerify_spec_iff)

text \<open>
  C8. \<^verbatim>\<open>equalConstTime(b1, b2)\<close> is true exactly when the two buffers have the same
  length and the same bytes; it is the comparison the specification describes (a length
  check, then the running or of the exclusive ors of all byte pairs, reduced to one
  boolean); and its loop leaves no position out: whatever the bytes are, it ends with
  its counter at the length of the buffer.
\<close>

theorem equalConstTime_correct:
  "(equalConstTime b1 b2 \<longleftrightarrow> length b1 = length b2 \<and> b1 = b2)
   \<and> equalConstTime b1 b2 = macVerify_spec b1 b2
   \<and> fst (equalConstTime_loop b1 b2 0 0) = length b1"
proof (intro conjI)
  show "equalConstTime b1 b2 \<longleftrightarrow> length b1 = length b2 \<and> b1 = b2"
    by (auto simp only: equalConstTime_iff)
  show "equalConstTime b1 b2 = macVerify_spec b1 b2"
    by (rule equalConstTime_refines)
  show "fst (equalConstTime_loop b1 b2 0 0) = length b1"
    by (simp only: equalConstTime_loop_counter max_0L)
qed

section \<open>The round trip of one envelope\<close>

lemma andThen_Inl [simp]: "andThen (Inl e) f = Inl e"
  by (simp add: andThen_def)

lemma andThen_Inr [simp]: "andThen (Inr x) f = f x"
  by (simp add: andThen_def)

lemma andThen_eq_Inr: "andThen r f = Inr y \<longleftrightarrow> (\<exists>x. r = Inr x \<and> f x = Inr y)"
  by (cases r) simp_all



text \<open>
  \<^verbatim>\<open>composeOptions\<close> leaves the IV undefined for an IV that is the empty string under a
  cipher property that is not undefined, and for nothing else; \<^verbatim>\<open>symmetricEncrypt\<close> then
  takes the deprecated construction without an IV.
\<close>

lemma composed_iv_Undefined_iff:
  "iv (composeOptions options) = Undefined \<longleftrightarrow>
     (\<exists>opts. options = Some opts \<and> ivIn opts = Some (Val [])
        \<and> symmetricCypherTypeIn opts \<noteq> Some Undefined)"
  by (cases options)
     (auto simp: composeOptions_def noOptions_def Let_def getProp_def spread_def isNullOrEmpty_def
        split: option.splits js.splits)


section \<open>The small instance satisfies the assumptions\<close>







lemmas toy_options = composeOptions_def noOptions_def getProp_def spread_def
  isNullOrEmpty_def emptyBufferForIv_def emptyBuffer_def unhex_def Let_def

lemmas toy_encrypt = encryptWithPublicKey_def generateSharedSecretAndEphemPublicKey_def
  toyPrimitives_def toyAgreeSender_def deriveKeys_def noCustomScheme_def generateMessageHash_def
  symmetricEncrypt_def computeMac_def generateMessageMac_def resolveScheme_def orElse_def truthy_def
  getDefaultScheme_def toHex_def hexDigit_def Buffer_from_hex_def Buffer_from_def

lemmas toy_decrypt = decryptWithPrivateKey_def ensureEncryptedValueIsObject_def
  generateSharedSecretUsingPrivateKey_def toyAgreeReceiver_def toyDecipheriv_def
  symmetricDecrypt_def

lemma char_113: "char_of (113 :: nat) = CHR ''q''"
  by code_simp

lemma toy_texts:
  "utf8Encode [104, 105] = [104, 105]"
  "utf8Encode [55296] = [239, 191, 189]"
  "toyUtf8Decode [104, 105] = [104, 105]"
  "toyUtf8Decode [239, 191, 189] = [65533]"
  "toyUtf8Decode [113] = [113]"
  "toyKeyText [113] = ''q''"
  "utf8ToBuffer ''q'' = [113]"
  by (simp_all add: encodeUnit_def isHighSurrogate_def toyKeyText_def char_113 utf8ToBuffer_def toJs_def)

section \<open>Where the round trip fails\<close>







section \<open>The order of the checks of decryption\<close>

lemma decipher_irrelevant:
  "ensureEncryptedValueIsObject (P\<lparr>createDecipher := d, createDecipheriv := d'\<rparr>) v
     = ensureEncryptedValueIsObject P v"
  "generateSharedSecretUsingPrivateKey (P\<lparr>createDecipher := d, createDecipheriv := d'\<rparr>) k eph c
     = generateSharedSecretUsingPrivateKey P k eph c"
  "deriveKeys (P\<lparr>createDecipher := d, createDecipheriv := d'\<rparr>) cas uo ss eb = deriveKeys P cas uo ss eb"
  "computeMac (P\<lparr>createDecipher := d, createDecipheriv := d'\<rparr>) cas uo mk ct = computeMac P cas uo mk ct"
  by (simp_all add: ensureEncryptedValueIsObject_def generateSharedSecretUsingPrivateKey_def
      deriveKeys_def computeMac_def generateMessageHash_def generateMessageMac_def
      split: encrypted_value.split option.split js.split)

lemma mac_mismatch_core:
  assumes "ensureEncryptedValueIsObject P encrypted = Inr e"
    and "generateSharedSecretUsingPrivateKey P (fromHex privateKey) (env_ephemPublicKey e)
           (curveType (composeOptions options)) = Inr (b, sharedSecret)"
    and "\<not> (truthy (env_scheme e) \<and> resolveScheme cas (composeOptions options) \<noteq> env_scheme e)"
    and "deriveKeys P cas (composeOptions options) sharedSecret (fromHex (env_ephemPublicKey e))
           = Inr (cipherKey, macKey)"
    and "computeMac P cas (composeOptions options) macKey (fromHex (env_ciphertext e)) = Inr compareMac"
    and "fromHex (env_mac e) \<noteq> compareMac"
  shows "decryptWithPrivateKey P encrypted privateKey options (Some cas) = Inl AuthenticationFailed"
  using assms unfolding decryptWithPrivateKey_def
  by (simp add: Let_def equalConstTime_iff)

text \<open>
  C2. When decryption reaches the comparison of the tags (the envelope parses, the key
  agreement and the key derivation return, the scheme test passes and the tag is
  recomputed over the ciphertext and \<open>s2\<close>) and the stored tag is not the recomputed one,
  the call fails with \<open>AuthenticationFailed\<close>; and it does so whatever the decipher
  functions are, which are therefore not called: no plaintext is returned.
\<close>

theorem mac_mismatch_fails:
  assumes "ensureEncryptedValueIsObject P encrypted = Inr e"
    and "generateSharedSecretUsingPrivateKey P (fromHex privateKey) (env_ephemPublicKey e)
           (curveType (composeOptions options)) = Inr (b, sharedSecret)"
    and "\<not> (truthy (env_scheme e) \<and> resolveScheme cas (composeOptions options) \<noteq> env_scheme e)"
    and "deriveKeys P cas (composeOptions options) sharedSecret (fromHex (env_ephemPublicKey e))
           = Inr (cipherKey, macKey)"
    and "computeMac P cas (composeOptions options) macKey (fromHex (env_ciphertext e)) = Inr compareMac"
    and "fromHex (env_mac e) \<noteq> compareMac"
  shows "decryptWithPrivateKey P encrypted privateKey options (Some cas) = Inl AuthenticationFailed
       \<and> decryptWithPrivateKey (P\<lparr>createDecipher := d, createDecipheriv := d'\<rparr>) encrypted privateKey
            options (Some cas) = Inl AuthenticationFailed"
proof
  show "decryptWithPrivateKey P encrypted privateKey options (Some cas) = Inl AuthenticationFailed"
    by (rule mac_mismatch_core [OF assms])
  show "decryptWithPrivateKey (P\<lparr>createDecipher := d, createDecipheriv := d'\<rparr>) encrypted privateKey
          options (Some cas) = Inl AuthenticationFailed"
    by (rule mac_mismatch_core [where e = e and b = b and sharedSecret = sharedSecret
          and cipherKey = cipherKey and macKey = macKey and compareMac = compareMac])
      (simp_all only: decipher_irrelevant assms not_False_eq_True)
qed

theorem mac_mismatch_fails_witness:
  "decryptWithPrivateKey toyPrimitives (EncObject tamperedMac) ''0201'' None (Some noCustomScheme)
     = Inl AuthenticationFailed
   \<and> decryptWithPrivateKey
        (toyPrimitives\<lparr>createDecipher := (\<lambda>name key c. Inr c), createDecipheriv := (\<lambda>name key iv' c. Inr c)\<rparr>)
        (EncObject tamperedMac) ''0201'' None (Some noCustomScheme) = Inl AuthenticationFailed"
proof -
  have a1: "ensureEncryptedValueIsObject toyPrimitives (EncObject tamperedMac) = Inr tamperedMac"
    by (simp add: ensureEncryptedValueIsObject_def)
  have a2: "generateSharedSecretUsingPrivateKey toyPrimitives (fromHex ''0201'')
      (env_ephemPublicKey tamperedMac) (curveType (composeOptions None)) = Inr (Val [7], Val [2, 1, 7])"
    by (simp add: tamperedMac_def toy_options toy_encrypt toy_decrypt)
  have a3: "\<not> (truthy (env_scheme tamperedMac)
      \<and> resolveScheme noCustomScheme (composeOptions None) \<noteq> env_scheme tamperedMac)"
    by (simp add: tamperedMac_def toy_options toy_encrypt)
  have a4: "deriveKeys toyPrimitives noCustomScheme (composeOptions None) (Val [2, 1, 7])
      (fromHex (env_ephemPublicKey tamperedMac)) = Inr ([2, 1], [7, 7])"
    by (simp add: tamperedMac_def toy_options toy_encrypt)
  have a5: "computeMac toyPrimitives noCustomScheme (composeOptions None) [7, 7]
      (fromHex (env_ciphertext tamperedMac)) = Inr [7, 7, 212]"
    by (simp add: tamperedMac_def toy_options toy_encrypt)
  have a6: "fromHex (env_mac tamperedMac) \<noteq> [7, 7, 212]"
    by (simp add: tamperedMac_def toy_options)
  show ?thesis
    by (rule mac_mismatch_fails [OF a1 a2 a3 a4 a5 a6])
qed

section \<open>The scheme test\<close>

text \<open>
  C3, as the claim states it, fails twice. The key agreement is called before the scheme
  is tested: with a private key that the key agreement rejects, an envelope of a foreign
  scheme fails with the error of the key agreement. And a scheme that is the empty string
  is not tested at all: the envelope decrypts although its scheme differs from the
  resolved one.
\<close>

theorem scheme_check_after_key_agreement:
  "resolveScheme noCustomScheme (composeOptions None) = Val ''asym.chainjs.secp256k1''
   \<and> decryptWithPrivateKey toyPrimitives (EncObject foreignScheme) '''' None (Some noCustomScheme)
       = Inl (PrimitiveFailure ''invalid private key'')
   \<and> decryptWithPrivateKey toyPrimitives (EncObject emptyScheme) ''0201'' None (Some noCustomScheme)
       = Inr [104, 105]"
proof -
  show ?thesis
    by (simp add: foreignScheme_def emptyScheme_def toy_options toy_encrypt toy_decrypt
        equalConstTime_iff toy_texts del: utf8Encode.simps toyUtf8Decode.simps)
qed

lemma later_steps_irrelevant:
  "ensureEncryptedValueIsObject
     (P\<lparr>createHash := h, createHmac := hm, createDecipher := d, createDecipheriv := d'\<rparr>) v
     = ensureEncryptedValueIsObject P v"
  "generateSharedSecretUsingPrivateKey
     (P\<lparr>createHash := h, createHmac := hm, createDecipher := d, createDecipheriv := d'\<rparr>) k eph c
     = generateSharedSecretUsingPrivateKey P k eph c"
  by (simp_all add: ensureEncryptedValueIsObject_def generateSharedSecretUsingPrivateKey_def
      split: encrypted_value.split option.split)

lemma scheme_mismatch_core:
  assumes "ensureEncryptedValueIsObject P encrypted = Inr e"
    and "generateSharedSecretUsingPrivateKey P (fromHex privateKey) (env_ephemPublicKey e)
           (curveType (composeOptions options)) = Inr r"
    and "truthy (env_scheme e)"
    and "env_scheme e \<noteq> resolveScheme cas (composeOptions options)"
  shows "decryptWithPrivateKey P encrypted privateKey options (Some cas) = Inl SchemeMismatch"
  using assms unfolding decryptWithPrivateKey_def
  by (auto simp: Let_def split: prod.splits)

text \<open>
  C3, amended. When the envelope parses, the receiver's key agreement (which runs
  first) returns, and the envelope carries a non-empty scheme that differs from the
  resolved scheme (the custom scheme, else the scheme of the options, else the default
  of the curve), the call fails with \<open>SchemeMismatch\<close>. It does so whatever the stored tag
  is and whatever the hash, the HMAC, the custom strategies and the decipher functions
  are: the test comes before the key derivation, the tag and the decryption.
\<close>

theorem scheme_mismatch_fails:
  assumes "ensureEncryptedValueIsObject P encrypted = Inr e"
    and "generateSharedSecretUsingPrivateKey P (fromHex privateKey) (env_ephemPublicKey e)
           (curveType (composeOptions options)) = Inr r"
    and "truthy (env_scheme e)"
    and "env_scheme e \<noteq> resolveScheme cas (composeOptions options)"
  shows "decryptWithPrivateKey P encrypted privateKey options (Some cas) = Inl SchemeMismatch
       \<and> decryptWithPrivateKey
            (P\<lparr>createHash := h, createHmac := hm, createDecipher := d, createDecipheriv := d'\<rparr>)
            encrypted privateKey options (Some cas) = Inl SchemeMismatch"
proof
  show "decryptWithPrivateKey P encrypted privateKey options (Some cas) = Inl SchemeMismatch"
    by (rule scheme_mismatch_core [OF assms])
  show "decryptWithPrivateKey
          (P\<lparr>createHash := h, createHmac := hm, createDecipher := d, createDecipheriv := d'\<rparr>)
          encrypted privateKey options (Some cas) = Inl SchemeMismatch"
    by (rule scheme_mismatch_core [where e = e and r = r])
      (simp_all only: later_steps_irrelevant assms not_False_eq_True)
qed

theorem scheme_mismatch_fails_witness:
  "decryptWithPrivateKey toyPrimitives (EncObject foreignScheme) ''0201'' None (Some noCustomScheme)
     = Inl SchemeMismatch
   \<and> decryptWithPrivateKey
        (toyPrimitives\<lparr>createHash := (\<lambda>name m. Inr m), createHmac := (\<lambda>name key m. Inr [7, 7, 212]),
           createDecipher := (\<lambda>name key c. Inr c), createDecipheriv := (\<lambda>name key iv' c. Inr c)\<rparr>)
        (EncObject foreignScheme) ''0201'' None (Some noCustomScheme) = Inl SchemeMismatch"
proof -
  have a1: "ensureEncryptedValueIsObject toyPrimitives (EncObject foreignScheme) = Inr foreignScheme"
    by (simp add: ensureEncryptedValueIsObject_def)
  have a2: "generateSharedSecretUsingPrivateKey toyPrimitives (fromHex ''0201'')
      (env_ephemPublicKey foreignScheme) (curveType (composeOptions None)) = Inr (Val [7], Val [2, 1, 7])"
    by (simp add: foreignScheme_def toy_options toy_encrypt toy_decrypt)
  have a3: "truthy (env_scheme foreignScheme)"
    by (simp add: foreignScheme_def truthy_def)
  have a4: "env_scheme foreignScheme \<noteq> resolveScheme noCustomScheme (composeOptions None)"
    by (simp add: foreignScheme_def toy_options toy_encrypt)
  show ?thesis
    by (rule scheme_mismatch_fails [OF a1 a2 a3 a4])
qed

section \<open>Curves the engine does not know\<close>

text \<open>
  C4. On a curve tag other than secp256k1 and ed25519 (an undefined one included) the
  sender's key agreement fails with \<open>UnsupportedCurve\<close>, but the receiver's returns
  without an error, with an undefined shared secret. \<^verbatim>\<open>decryptWithPrivateKey\<close> then fails
  with the scheme test or with a \<open>TypeError\<close> on the undefined secret, never with
  \<open>UnsupportedCurve\<close>, and with a custom key generator it returns a plaintext.
\<close>

theorem receiver_accepts_unknown_curve:
  "generateSharedSecretAndEphemPublicKey P entropy publicKey (Val (OtherCurve c)) format
     = Inl UnsupportedCurve
   \<and> generateSharedSecretAndEphemPublicKey P entropy publicKey Undefined format = Inl UnsupportedCurve
   \<and> generateSharedSecretUsingPrivateKey P privateKey ephemPublicKey (Val (OtherCurve c))
     = Inr (Undefined, Undefined)
   \<and> generateSharedSecretUsingPrivateKey P privateKey ephemPublicKey Undefined
     = Inr (Undefined, Undefined)
   \<and> decryptWithPrivateKey P (EncObject e) privateKey' (Some (noOptions\<lparr>curveTypeIn := Some Undefined\<rparr>))
       (Some noCustomScheme)
     = (if truthy (env_scheme e) then Inl SchemeMismatch else Inl (TypeError ''sharedSecret.length''))
   \<and> decryptWithPrivateKey toyPrimitives (EncObject unschemed) ''0201''
       (Some (noOptions\<lparr>curveTypeIn := Some Undefined\<rparr>)) (Some fixedKeys) = Inr [104, 105]"
proof -
  have sender: "generateSharedSecretAndEphemPublicKey P entropy publicKey (Val (OtherCurve c)) format
       = Inl UnsupportedCurve"
    "generateSharedSecretAndEphemPublicKey P entropy publicKey Undefined format = Inl UnsupportedCurve"
    by (simp_all add: generateSharedSecretAndEphemPublicKey_def)
  have receiver: "generateSharedSecretUsingPrivateKey P privateKey ephemPublicKey (Val (OtherCurve c))
       = Inr (Undefined, Undefined)"
    "generateSharedSecretUsingPrivateKey P privateKey ephemPublicKey Undefined
       = Inr (Undefined, Undefined)"
    by (simp_all add: generateSharedSecretUsingPrivateKey_def)
  have dflt: "decryptWithPrivateKey P (EncObject e) privateKey'
       (Some (noOptions\<lparr>curveTypeIn := Some Undefined\<rparr>)) (Some noCustomScheme)
     = (if truthy (env_scheme e) then Inl SchemeMismatch else Inl (TypeError ''sharedSecret.length''))"
    by (auto simp: decryptWithPrivateKey_def ensureEncryptedValueIsObject_def
        generateSharedSecretUsingPrivateKey_def toy_options deriveKeys_def noCustomScheme_def
        resolveScheme_def orElse_def truthy_def getDefaultScheme_def)
  have custom: "decryptWithPrivateKey toyPrimitives (EncObject unschemed) ''0201''
       (Some (noOptions\<lparr>curveTypeIn := Some Undefined\<rparr>)) (Some fixedKeys) = Inr [104, 105]"
    by (simp add: unschemed_def fixedKeys_def toy_options toy_encrypt toy_decrypt
        equalConstTime_iff toy_texts del: utf8Encode.simps toyUtf8Decode.simps)
  from sender receiver dflt custom show ?thesis
    by (simp only: simp_thms)
qed

section \<open>A missing custom scheme\<close>

text \<open>
  C9. Called without a \<^verbatim>\<open>customAsymScheme\<close>, \<^verbatim>\<open>encryptWithPublicKey\<close> and
  \<^verbatim>\<open>decryptWithPrivateKey\<close> fail with the \<open>TypeError\<close> of the destructuring, whatever
  the options, the keys and the primitives are, so before the options are composed and
  before any cryptographic work; a call that returns a result was therefore given a
  configuration, if only an empty one.
\<close>

theorem missing_custom_scheme_throws:
  "encryptWithPublicKey P entropy publicKey plainText options None = Inl (TypeError ''customAsymScheme'')
   \<and> decryptWithPrivateKey P encrypted privateKey options None = Inl (TypeError ''customAsymScheme'')
   \<and> (encryptWithPublicKey P entropy publicKey plainText options customAsymScheme = Inr e
        \<longrightarrow> customAsymScheme \<noteq> None)
   \<and> (decryptWithPrivateKey P encrypted privateKey options customAsymScheme = Inr decrypted
        \<longrightarrow> customAsymScheme \<noteq> None)"
  by (cases customAsymScheme) (simp_all add: encryptWithPublicKey_def decryptWithPrivateKey_def)

theorem missing_custom_scheme_throws_witness:
  "encryptWithPublicKey toyPrimitives [7] ''0102'' [104, 105] None (Some noCustomScheme) = Inr (unschemed\<lparr>env_scheme := Val ''asym.chainjs.secp256k1''\<rparr>)
   \<and> decryptWithPrivateKey toyPrimitives (EncObject unschemed) ''0201'' None (Some noCustomScheme) = Inr [104, 105]
   \<and> Some noCustomScheme \<noteq> None
   \<and> encryptWithPublicKey toyPrimitives [7] ''0102'' [104, 105] None None = Inl (TypeError ''customAsymScheme'')"
proof -
  have enc: "encryptWithPublicKey toyPrimitives [7] ''0102'' [104, 105] None (Some noCustomScheme)
      = Inr (unschemed\<lparr>env_scheme := Val ''asym.chainjs.secp256k1''\<rparr>)"
    by (simp add: unschemed_def toy_options toy_encrypt toy_texts del: utf8Encode.simps toyUtf8Decode.simps)
  have dec: "decryptWithPrivateKey toyPrimitives (EncObject unschemed) ''0201'' None (Some noCustomScheme)
      = Inr [104, 105]"
    by (simp add: unschemed_def toy_options toy_encrypt toy_decrypt equalConstTime_iff toy_texts del: utf8Encode.simps toyUtf8Decode.simps)
  show ?thesis
    using missing_custom_scheme_throws [of toyPrimitives "[7]" "''0102''" "[104, 105]" None
        "EncObject unschemed" "''0201''" "Some noCustomScheme"
        "unschemed\<lparr>env_scheme := Val ''asym.chainjs.secp256k1''\<rparr>" "[104, 105]"] enc dec
    by simp
qed

section \<open>The IV of decryption\<close>

lemma composeOptions_ivIn:
  "composeOptions (Some (opts\<lparr>ivIn := a\<rparr>))
     = (composeOptions (Some opts))\<lparr>iv := iv (composeOptions (Some (opts\<lparr>ivIn := a\<rparr>)))\<rparr>"
  by (simp add: composeOptions_def Let_def cong del: js.case_cong_weak)

lemma iv_update_irrelevant:
  "deriveKeys P cas (uo\<lparr>iv := x\<rparr>) ss eb = deriveKeys P cas uo ss eb"
  "computeMac P cas (uo\<lparr>iv := x\<rparr>) mk ct = computeMac P cas uo mk ct"
  "resolveScheme cas (uo\<lparr>iv := x\<rparr>) = resolveScheme cas uo"
  by (simp_all add: deriveKeys_def computeMac_def resolveScheme_def
      cong del: option.case_cong_weak js.case_cong_weak)

lemma decrypt_ignores_composed_iv:
  "decryptWithPrivateKey P encrypted privateKey (Some (opts\<lparr>ivIn := a\<rparr>)) customAsymScheme
     = decryptWithPrivateKey P encrypted privateKey (Some opts) customAsymScheme"
  unfolding decryptWithPrivateKey_def
  by (subst composeOptions_ivIn)
     (simp add: Let_def iv_update_irrelevant
        cong del: if_weak_cong option.case_cong_weak prod.case_cong_weak js.case_cong_weak)

lemma decrypt_with_envelope_iv:
  assumes "ensureEncryptedValueIsObject P encrypted = Inr e"
    and "generateSharedSecretUsingPrivateKey P (fromHex privateKey) (env_ephemPublicKey e)
           (curveType (composeOptions options)) = Inr (eb, sharedSecret)"
    and "\<not> (truthy (env_scheme e) \<and> resolveScheme cas (composeOptions options) \<noteq> env_scheme e)"
    and "deriveKeys P cas (composeOptions options) sharedSecret (fromHex (env_ephemPublicKey e))
           = Inr (cipherKey, macKey)"
    and "computeMac P cas (composeOptions options) macKey (fromHex (env_ciphertext e))
           = Inr (fromHex (env_mac e))"
  shows "decryptWithPrivateKey P encrypted privateKey options (Some cas)
       = andThen (createDecipheriv P (symmetricCypherType (composeOptions options)) cipherKey
                    (case env_iv e of Val s \<Rightarrow> fromHex s | _ \<Rightarrow> [])
                    (fromHex (env_ciphertext e)))
           (\<lambda>buffer. Inr (utf8Decode P buffer))"
proof -
  have ivd: "(case env_iv e of
                Val s \<Rightarrow> if \<not> isNullOrEmpty (env_iv e) then fromHex s else emptyBuffer
              | _ \<Rightarrow> emptyBuffer) = (case env_iv e of Val s \<Rightarrow> fromHex s | _ \<Rightarrow> [])"
    by (cases "env_iv e") (auto simp: isNullOrEmpty_def emptyBuffer_def)
  from assms(3) have sch: "(truthy (env_scheme e)
      \<and> resolveScheme cas (composeOptions options) \<noteq> env_scheme e) = False"
    by simp
  show ?thesis
    unfolding decryptWithPrivateKey_def
    by (simp add: Let_def equalConstTime_iff symmetricDecrypt_def ivd sch assms(1,2,4,5))
qed

text \<open>
  C10. The result of \<^verbatim>\<open>decryptWithPrivateKey\<close>, a plaintext or an error, is the same for
  any two options that differ in \<^verbatim>\<open>iv\<close> only, also when one of them has no \<^verbatim>\<open>iv\<close> or
  when no options are given at all. And when the call reaches the decryption (the
  envelope parses, the key agreement and the key derivation return, the scheme test
  passes and the recomputed tag is the stored one), its result is what the decipher
  \<^verbatim>\<open>createDecipheriv\<close> of the composed cipher makes of the ciphertext under the derived
  cipher key and the IV of the envelope, decoded as UTF-8: the \<^verbatim>\<open>iv\<close> field decoded from
  hexadecimal, and the empty buffer when the field is undefined, null or empty. The IV of
  the options occurs neither in the conditions nor in the result.
\<close>

theorem decrypt_iv_from_envelope_only:
  "decryptWithPrivateKey P encrypted privateKey (Some (opts\<lparr>ivIn := a\<rparr>)) customAsymScheme
     = decryptWithPrivateKey P encrypted privateKey (Some (opts\<lparr>ivIn := b\<rparr>)) customAsymScheme
   \<and> decryptWithPrivateKey P encrypted privateKey (Some (noOptions\<lparr>ivIn := a\<rparr>)) customAsymScheme
     = decryptWithPrivateKey P encrypted privateKey None customAsymScheme
   \<and> (ensureEncryptedValueIsObject P encrypted = Inr e
        \<and> generateSharedSecretUsingPrivateKey P (fromHex privateKey) (env_ephemPublicKey e)
             (curveType (composeOptions (Some opts))) = Inr (eb, sharedSecret)
        \<and> \<not> (truthy (env_scheme e) \<and> resolveScheme cas (composeOptions (Some opts)) \<noteq> env_scheme e)
        \<and> deriveKeys P cas (composeOptions (Some opts)) sharedSecret (fromHex (env_ephemPublicKey e))
             = Inr (cipherKey, macKey)
        \<and> computeMac P cas (composeOptions (Some opts)) macKey (fromHex (env_ciphertext e))
             = Inr (fromHex (env_mac e))
      \<longrightarrow> decryptWithPrivateKey P encrypted privateKey (Some (opts\<lparr>ivIn := a\<rparr>)) (Some cas)
          = andThen (createDecipheriv P (symmetricCypherType (composeOptions (Some opts))) cipherKey
                       (case env_iv e of Val s \<Rightarrow> fromHex s | _ \<Rightarrow> [])
                       (fromHex (env_ciphertext e)))
              (\<lambda>buffer. Inr (utf8Decode P buffer)))"
proof (intro conjI impI)
  show "decryptWithPrivateKey P encrypted privateKey (Some (opts\<lparr>ivIn := a\<rparr>)) customAsymScheme
     = decryptWithPrivateKey P encrypted privateKey (Some (opts\<lparr>ivIn := b\<rparr>)) customAsymScheme"
    by (simp only: decrypt_ignores_composed_iv)
  have "composeOptions (Some noOptions) = composeOptions None"
    by (simp add: composeOptions_def)
  then have "decryptWithPrivateKey P encrypted privateKey (Some noOptions) customAsymScheme
     = decryptWithPrivateKey P encrypted privateKey None customAsymScheme"
    by (simp only: decryptWithPrivateKey_def)
  then show "decryptWithPrivateKey P encrypted privateKey (Some (noOptions\<lparr>ivIn := a\<rparr>)) customAsymScheme
     = decryptWithPrivateKey P encrypted privateKey None customAsymScheme"
    by (simp only: decrypt_ignores_composed_iv)
  assume hyps: "ensureEncryptedValueIsObject P encrypted = Inr e
        \<and> generateSharedSecretUsingPrivateKey P (fromHex privateKey) (env_ephemPublicKey e)
             (curveType (composeOptions (Some opts))) = Inr (eb, sharedSecret)
        \<and> \<not> (truthy (env_scheme e) \<and> resolveScheme cas (composeOptions (Some opts)) \<noteq> env_scheme e)
        \<and> deriveKeys P cas (composeOptions (Some opts)) sharedSecret (fromHex (env_ephemPublicKey e))
             = Inr (cipherKey, macKey)
        \<and> computeMac P cas (composeOptions (Some opts)) macKey (fromHex (env_ciphertext e))
             = Inr (fromHex (env_mac e))"
  have "decryptWithPrivateKey P encrypted privateKey (Some opts) (Some cas)
          = andThen (createDecipheriv P (symmetricCypherType (composeOptions (Some opts))) cipherKey
                       (case env_iv e of Val s \<Rightarrow> fromHex s | _ \<Rightarrow> [])
                       (fromHex (env_ciphertext e)))
              (\<lambda>buffer. Inr (utf8Decode P buffer))"
    by (rule decrypt_with_envelope_iv [where eb = eb and sharedSecret = sharedSecret and macKey = macKey])
       (simp_all only: hyps not_False_eq_True)
  then show "decryptWithPrivateKey P encrypted privateKey (Some (opts\<lparr>ivIn := a\<rparr>)) (Some cas)
          = andThen (createDecipheriv P (symmetricCypherType (composeOptions (Some opts))) cipherKey
                       (case env_iv e of Val s \<Rightarrow> fromHex s | _ \<Rightarrow> [])
                       (fromHex (env_ciphertext e)))
              (\<lambda>buffer. Inr (utf8Decode P buffer))"
    by (simp only: decrypt_ignores_composed_iv)
qed

theorem decrypt_iv_from_envelope_only_witness:
  "env_iv ctrEnvelope = Val ''00ff''
   \<and> decryptWithPrivateKey toyPrimitives (EncObject ctrEnvelope) ''0b0a''
        (Some (ctrOptions\<lparr>ivIn := Some (Val ''abcd'')\<rparr>)) (Some noCustomScheme)
     = andThen (createDecipheriv toyPrimitives (Val Aes256Ctr) [11, 10] [0, 255]
                  [0, 255, 11, 10, 104, 105])
         (\<lambda>buffer. Inr (utf8Decode toyPrimitives buffer))
   \<and> createDecipheriv toyPrimitives (Val Aes256Ctr) [11, 10] [0, 255] [0, 255, 11, 10, 104, 105]
     = Inr [104, 105]
   \<and> createDecipheriv toyPrimitives (Val Aes256Ctr) [11, 10] [171, 205] [0, 255, 11, 10, 104, 105]
     = Inl (PrimitiveFailure ''bad decrypt'')"
proof -
  have hyps: "ensureEncryptedValueIsObject toyPrimitives (EncObject ctrEnvelope) = Inr ctrEnvelope
        \<and> generateSharedSecretUsingPrivateKey toyPrimitives (fromHex ''0b0a'')
             (env_ephemPublicKey ctrEnvelope) (curveType (composeOptions (Some ctrOptions)))
             = Inr (Val [9], Val [11, 10, 9])
        \<and> \<not> (truthy (env_scheme ctrEnvelope)
               \<and> resolveScheme noCustomScheme (composeOptions (Some ctrOptions)) \<noteq> env_scheme ctrEnvelope)
        \<and> deriveKeys toyPrimitives noCustomScheme (composeOptions (Some ctrOptions)) (Val [11, 10, 9])
             (fromHex (env_ephemPublicKey ctrEnvelope)) = Inr ([11, 10], [9, 9])
        \<and> computeMac toyPrimitives noCustomScheme (composeOptions (Some ctrOptions)) [9, 9]
             (fromHex (env_ciphertext ctrEnvelope)) = Inr (fromHex (env_mac ctrEnvelope))"
    by (simp add: ctrEnvelope_def ctrOptions_def toy_options toy_encrypt toy_decrypt)
  have flds: "env_iv ctrEnvelope = Val ''00ff''"
    "symmetricCypherType (composeOptions (Some ctrOptions)) = Val Aes256Ctr"
    "(case env_iv ctrEnvelope of Val s \<Rightarrow> fromHex s | _ \<Rightarrow> []) = [0, 255]"
    "fromHex (env_ciphertext ctrEnvelope) = [0, 255, 11, 10, 104, 105]"
    by (simp_all add: ctrEnvelope_def ctrOptions_def toy_options)
  have dec: "createDecipheriv toyPrimitives (Val Aes256Ctr) [11, 10] [0, 255] [0, 255, 11, 10, 104, 105]
       = Inr [104, 105]"
    "createDecipheriv toyPrimitives (Val Aes256Ctr) [11, 10] [171, 205] [0, 255, 11, 10, 104, 105]
       = Inl (PrimitiveFailure ''bad decrypt'')"
    by (simp_all add: toyPrimitives_def toyDecipheriv_def)
  from decrypt_iv_from_envelope_only [where a = "Some (Val ''abcd'')", THEN conjunct2, THEN conjunct2,
      THEN mp, OF hyps]
  have "decryptWithPrivateKey toyPrimitives (EncObject ctrEnvelope) ''0b0a''
        (Some (ctrOptions\<lparr>ivIn := Some (Val ''abcd'')\<rparr>)) (Some noCustomScheme)
     = andThen (createDecipheriv toyPrimitives (Val Aes256Ctr) [11, 10] [0, 255]
                  [0, 255, 11, 10, 104, 105])
         (\<lambda>buffer. Inr (utf8Decode toyPrimitives buffer))"
    by (simp only: flds(2-4))
  with flds(1) dec show ?thesis
    by (simp only: simp_thms)
qed

section \<open>The IV of the composed options\<close>

text \<open>
  What \<^verbatim>\<open>composeOptions\<close> makes of the IV when the caller names a cipher: a non-empty
  string is parsed as hexadecimal; a missing or undefined one gives the buffer of the
  cipher, sixteen zero bytes for AES-256-CTR and the empty buffer otherwise; \<^verbatim>\<open>null\<close> is
  kept, and \<^verbatim>\<open>symmetricEncrypt\<close> replaces it by the empty buffer whatever the cipher is.
  A cipher that is present and undefined is replaced by the default, and the IV is then
  the buffer of the default cipher whatever the caller gave.
\<close>

lemma composeOptions_iv_resolution:
  "s \<noteq> [] \<Longrightarrow> iv (composeOptions (Some (opts\<lparr>symmetricCypherTypeIn := Some (Val c), ivIn := Some (Val s)\<rparr>)))
     = Val (fromHex s)"
  "iv (composeOptions (Some (opts\<lparr>symmetricCypherTypeIn := Some (Val c), ivIn := Some Undefined\<rparr>)))
     = Val (if c = Aes256Ctr then replicate 16 0 else [])"
  "iv (composeOptions (Some (opts\<lparr>symmetricCypherTypeIn := Some (Val c), ivIn := None\<rparr>)))
     = Val (if c = Aes256Ctr then replicate 16 0 else [])"
  "iv (composeOptions (Some (opts\<lparr>symmetricCypherTypeIn := Some (Val c), ivIn := Some Null\<rparr>))) = Null"
  "symmetricEncrypt P name Null key plainText = createCipheriv P name key [] (utf8Encode plainText)"
  "iv (composeOptions (Some (opts\<lparr>symmetricCypherTypeIn := Some Undefined, ivIn := given\<rparr>))) = Val []"
  "symmetricCypherType (composeOptions (Some (opts\<lparr>symmetricCypherTypeIn := Some Undefined\<rparr>)))
     = Val Aes128Ecb"
  by (simp_all add: composeOptions_def Let_def getProp_def spread_def isNullOrEmpty_def
      emptyBufferForIv_def emptyBuffer_def symmetricEncrypt_def)

text \<open>
  C7. When the caller gives an IV and no \<^verbatim>\<open>symmetricCypherType\<close> property, the default
  cipher AES-128-ECB is substituted, but the IV is the caller's and not the (empty)
  buffer of the cipher: the defaults are merged in before the test for an undefined cipher,
  which therefore holds only of a property that is present and undefined.
\<close>

theorem composeOptions_keeps_iv_without_cipher:
  "symmetricCypherTypeIn (noOptions\<lparr>ivIn := Some (Val ''abcd'')\<rparr>) = None
   \<and> symmetricCypherType (composeOptions (Some (noOptions\<lparr>ivIn := Some (Val ''abcd'')\<rparr>))) = Val Aes128Ecb
   \<and> iv (composeOptions (Some (noOptions\<lparr>ivIn := Some (Val ''abcd'')\<rparr>))) = Val [171, 205]
   \<and> emptyBufferForIv (Val Aes128Ecb) = []
   \<and> iv (composeOptions (Some (noOptions\<lparr>symmetricCypherTypeIn := Some Undefined,
          ivIn := Some (Val ''abcd'')\<rparr>))) = Val []"
  by (simp add: toy_options)

section \<open>Signatures\<close>

lemma toy_signingKeyPair:
  assumes "fromHex publicKey = rev (fromHex privateKey)"
  shows "signingKeyPair toyPrimitives publicKey privateKey"
  using assms
  by (auto simp: signingKeyPair_def toyPrimitives_def toyVerify_def toySignature_def)

lemma toHex_zeros: "toHex (replicate n 0) = replicate (2 * n) CHR ''0''"
  by (induction n) (simp_all add: toHex_def hexDigit_def)

lemma toHex_append: "toHex (a @ b) = toHex a @ toHex b"
  by (simp add: toHex_def)

lemma toy_digest: "fromHex (createSha256Hash toyPrimitives (utf8StringToHexString toyPrimitives ''hi'')) = [104, 105]"
  by (simp add: toyPrimitives_def utf8ToBuffer_def toJs_def encodeUnit_def isHighSurrogate_def
      toHex_def hexDigit_def unhex_def)

lemma toy_signature_hex:
  "''68690201'' @ replicate 120 CHR ''0'' = toHex ([104, 105, 2, 1] @ replicate 60 0)"
  by (simp only: toHex_append toHex_zeros) (simp add: toHex_def hexDigit_def)

lemma toy_signature_value: "toySignature [104, 105] [2, 1] = [104, 105, 2, 1] @ replicate 60 0"
  by (simp add: toySignature_def)

lemma toy_sign: "sign toyPrimitives ''hi'' ''0201'' = Inr (''68690201'' @ replicate 120 CHR ''0'')"
proof -
  have "fromHex ''0201'' = [2, 1]"
    by (simp add: unhex_def)
  then have "sign toyPrimitives ''hi'' ''0201'' = Inr (toHex (toySignature [104, 105] [2, 1]))"
    by (simp add: sign_def Let_def toy_digest byteArrayToHexString_def)
       (simp add: toyPrimitives_def)
  then show ?thesis
    by (simp only: toy_signature_value toy_signature_hex)
qed

lemma toy_verify:
  "verifySignedWithPublicKey toyPrimitives ''hi'' ''0102'' (''68690201'' @ replicate 120 CHR ''0'') = Inr True"
proof -
  have "fromHex ''0102'' = [1, 2]"
    by (simp add: unhex_def)
  then have "verifySignedWithPublicKey toyPrimitives ''hi'' ''0102'' (toHex ([104, 105, 2, 1] @ replicate 60 0))
      = toyVerify ([104, 105, 2, 1] @ replicate 60 0) [104, 105] [1, 2]"
    by (simp add: verifySignedWithPublicKey_def Let_def toy_digest fromHex_toHex)
       (simp add: toyPrimitives_def)
  also have "\<dots> = Inr True"
    by (simp add: toyVerify_def toy_signature_value)
  finally show ?thesis
    by (simp only: toy_signature_hex)
qed

lemma toy_verify_altered:
  "verifySignedWithPublicKey toyPrimitives ''hi'' ''0102'' (''z8690201'' @ replicate 120 CHR ''0'')
       = Inl (PrimitiveFailure ''signature length'')"
proof -
  have "fromHex (''z8690201'' @ replicate 120 CHR ''0'') = []"
    by (simp add: unhex_def)
  then show ?thesis
    by (simp add: verifySignedWithPublicKey_def Let_def toy_digest)
       (simp add: toyPrimitives_def toyVerify_def)
qed

text \<open>
  C6, as the claim states it, fails: \<^verbatim>\<open>verifySignedWithPublicKey\<close> has no handler of its
  own, so it throws whenever the ECDSA primitive does. With a primitive that, like the
  secp256k1 binding, throws on a signature that is not 64 bytes long, changing the first
  character of a signature into one that is not a hexadecimal digit (the decoded
  signature is then empty) makes the verification throw.
\<close>

theorem verify_throws_on_altered_signature:
  "sign toyPrimitives ''hi'' ''0201'' = Inr (''68690201'' @ replicate 120 CHR ''0'')
   \<and> verifySignedWithPublicKey toyPrimitives ''hi'' ''0102'' (''68690201'' @ replicate 120 CHR ''0'')
       = Inr True
   \<and> verifySignedWithPublicKey toyPrimitives ''hi'' ''0102'' (''z8690201'' @ replicate 120 CHR ''0'')
       = Inl (PrimitiveFailure ''signature length'')"
  using toy_sign toy_verify toy_verify_altered by (simp only: simp_thms)

text \<open>
  C6, amended. For a matching key pair, the signature that \<^verbatim>\<open>sign\<close> returns for a
  message verifies: \<^verbatim>\<open>verifySignedWithPublicKey\<close> returns true. For any message and
  signature, the outcome of \<^verbatim>\<open>verifySignedWithPublicKey\<close> is the outcome of the ECDSA
  verification on the decoded signature, the digest of the message and the decoded key:
  the boolean it returns, or the exception it throws.
\<close>

theorem sign_then_verify:
  assumes "signingKeyPair P publicKey privateKey"
    and "sign P message privateKey = Inr signature"
  shows "verifySignedWithPublicKey P message publicKey signature = Inr True
       \<and> verifySignedWithPublicKey P message' publicKey' signature'
           = ecdsaVerify P (fromHex signature')
               (fromHex (createSha256Hash P (utf8StringToHexString P message'))) (fromHex publicKey')"
proof -
  from assms(2) obtain raw where
    raw: "ecdsaSign P (fromHex (createSha256Hash P (utf8StringToHexString P message)))
            (fromHex privateKey) = Inr raw"
    and sg: "signature = toHex raw"
    by (auto simp: sign_def Let_def andThen_eq_Inr byteArrayToHexString_def)
  from assms(1) raw have
    "ecdsaVerify P raw (fromHex (createSha256Hash P (utf8StringToHexString P message)))
       (fromHex publicKey) = Inr True"
    unfolding signingKeyPair_def by blast
  then show ?thesis
    by (simp add: verifySignedWithPublicKey_def Let_def sg fromHex_toHex)
qed

theorem sign_then_verify_witness:
  "sign toyPrimitives ''hi'' ''0201'' = Inr (''68690201'' @ replicate 120 CHR ''0'')
   \<and> verifySignedWithPublicKey toyPrimitives ''hi'' ''0102'' (''68690201'' @ replicate 120 CHR ''0'')
       = Inr True"
proof -
  have pair: "signingKeyPair toyPrimitives ''0102'' ''0201''"
    by (rule toy_signingKeyPair) (simp add: unhex_def)
  have sg: "sign toyPrimitives ''hi'' ''0201'' = Inr (''68690201'' @ replicate 120 CHR ''0'')"
    by (rule toy_sign)
  have "verifySignedWithPublicKey toyPrimitives ''hi'' ''0102''
      (''68690201'' @ replicate 120 CHR ''0'') = Inr True"
    by (rule sign_then_verify [OF pair sg, THEN conjunct1])
  with sg show ?thesis
    by (simp only: simp_thms)
qed

section \<open>The round trip of layered envelopes\<close>






section \<open>The layered round trip on the small instance\<close>


















end
